theory Spec2Isabelle
  imports Main "HOL-Library.Word"
begin

section \<open>Data\<close>

text \<open>
  The notebook \<^verbatim>\<open>tutorials/groq-gradio/groq-gradio-tutorial.ipynb\<close> defines three
  functions, \<^verbatim>\<open>transcribe_audio\<close>, \<^verbatim>\<open>generate_response\<close> and \<^verbatim>\<open>process_audio\<close>.
  Everything else they touch belongs to libraries (\<^verbatim>\<open>groq\<close>, \<^verbatim>\<open>soundfile\<close>,
  \<^verbatim>\<open>numpy\<close>) and to the remote endpoints behind them.

  A raised Python exception is a value carrying the text that \<^verbatim>\<open>str(e)\<close> gives; all
  exceptions here are instances of \<^verbatim>\<open>Exception\<close>, the class both handlers catch.
\<close>

datatype exception = Exception (str: string)

type_synonym bytes = "8 word list"

text \<open>
  A numpy array is opaque to the notebook's code, which only hands it on. The element
  type and the shape are kept because \<^verbatim>\<open>sf.write\<close> decides on them whether it can
  encode the array.
\<close>

datatype dtype = Int8 | Int16 | Int32 | Int64 | Float32 | Float64

record ndarray =
  dtype :: dtype
  shape :: "nat list"
  items :: bytes

text \<open>
  Gradio's \<^verbatim>\<open>Audio(type="numpy")\<close> delivers the pair (sample rate, samples):
  \<^verbatim>\<open>audio[0]\<close> is the first and \<^verbatim>\<open>audio[1]\<close> the second component. An absent
  recording is \<^verbatim>\<open>None\<close>, and so is an absent key.
\<close>

type_synonym audio = "int \<times> ndarray"

datatype client = Client (client_api_key: string)

record message =
  role :: string
  content :: string

record choice =
  message :: message

record chat_completion =
  choices :: "choice list"

text \<open>
  The remote requests a run has issued, in the order in which they were issued, each
  with the client it went through and the keyword arguments of the call:
  \<^verbatim>\<open>model\<close>, \<^verbatim>\<open>file\<close>, \<^verbatim>\<open>response_format\<close> for a transcription,
  \<^verbatim>\<open>model\<close>, \<^verbatim>\<open>messages\<close> for a chat completion.
\<close>

datatype call =
  Transcription_request client string "string \<times> bytes" string
| Chat_request client string "message list"

fun is_transcription_request :: "call \<Rightarrow> bool" where
  "is_transcription_request (Transcription_request c m f r) = True"
| "is_transcription_request (Chat_request c m ms) = False"

fun is_chat_request :: "call \<Rightarrow> bool" where
  "is_chat_request (Transcription_request c m f r) = False"
| "is_chat_request (Chat_request c m ms) = True"

text \<open>
  The outcome of running a function: what it returned (\<open>Inr\<close>) or the exception that
  left it (\<open>Inl\<close>), and the remote requests it issued on the way.
\<close>

type_synonym 'a run = "(exception + 'a) \<times> call list"

definition returned :: "'a run \<Rightarrow> bool" where
  "returned r = (case fst r of Inl e \<Rightarrow> False | Inr x \<Rightarrow> True)"

section \<open>The libraries and the remote services\<close>

text \<open>
  The library calls are parameters of the model. Each one that can raise has a failure
  branch:
  \<^item> \<open>groq_Client\<close> is \<^verbatim>\<open>groq.Client(api_key=...)\<close>, which builds a client or raises
    when it finds no key to use;
  \<^item> \<open>sf_write\<close> is \<^verbatim>\<open>sf.write(buffer, audio_data, samplerate, format='wav')\<close> followed
    by \<^verbatim>\<open>buffer.seek(0)\<close>: the content of the buffer, or the exception raised for
    samples it cannot encode;
  \<^item> \<open>np_save\<close> is \<^verbatim>\<open>np.save(bytes_audio, audio_data)\<close> followed by
    \<^verbatim>\<open>bytes_audio.seek(0)\<close>: the content of that second buffer. Every array has a
    \<^verbatim>\<open>.npy\<close> serialisation, so there is no failure branch;
  \<^item> \<open>transcriptions_create\<close> is \<^verbatim>\<open>client.audio.transcriptions.create\<close>, the remote
    speech-to-text call, which returns the text or raises;
  \<^item> \<open>chat_completions_create\<close> is \<^verbatim>\<open>client.chat.completions.create\<close>, the remote
    chat-completion call, which returns a completion object or raises.
\<close>

record env =
  groq_Client :: "string option \<Rightarrow> exception + client"
  sf_write :: "ndarray \<Rightarrow> int \<Rightarrow> exception + bytes"
  np_save :: "ndarray \<Rightarrow> bytes"
  transcriptions_create ::
    "client \<Rightarrow> string \<Rightarrow> string \<times> bytes \<Rightarrow> string \<Rightarrow> exception + string"
  chat_completions_create ::
    "client \<Rightarrow> string \<Rightarrow> message list \<Rightarrow> exception + chat_completion"

section \<open>The notebook's functions\<close>

text \<open>
  \<^verbatim>\<open>transcribe_audio(audio, api_key)\<close>. The client is built and both buffers are filled
  before the \<^verbatim>\<open>try\<close>; only the remote call is inside it.
\<close>

definition transcribe_audio :: "env \<Rightarrow> audio option \<Rightarrow> string option \<Rightarrow> string run" where
  "transcribe_audio env audio api_key =
     (case audio of
        None \<Rightarrow> (Inr '''', [])
      | Some a \<Rightarrow>
          (case groq_Client env api_key of
             Inl e \<Rightarrow> (Inl e, [])
           | Inr client \<Rightarrow>
               (let audio_data = snd a in
                case sf_write env audio_data (fst a) of
                  Inl e \<Rightarrow> (Inl e, [])
                | Inr buffer \<Rightarrow>
                    (let bytes_audio = np_save env audio_data in
                     case transcriptions_create env client ''distil-whisper-large-v3-en''
                            (''audio.wav'', buffer) ''text'' of
                       Inr completion \<Rightarrow>
                         (Inr completion,
                          [Transcription_request client ''distil-whisper-large-v3-en''
                             (''audio.wav'', buffer) ''text''])
                     | Inl e \<Rightarrow>
                         (Inr (''Error in transcription: '' @ str e),
                          [Transcription_request client ''distil-whisper-large-v3-en''
                             (''audio.wav'', buffer) ''text''])))))"

text \<open>
  \<^verbatim>\<open>generate_response(transcription, api_key)\<close>. The indexing
  \<^verbatim>\<open>completion.choices[0]\<close> is inside the \<^verbatim>\<open>try\<close>, so the \<^verbatim>\<open>IndexError\<close> of an
  empty list of choices reaches the handler like a failure of the call.
\<close>

definition generate_response :: "env \<Rightarrow> string \<Rightarrow> string option \<Rightarrow> string run" where
  "generate_response env transcription api_key =
     (if transcription = [] then
        (Inr ''No transcription available. Please try speaking again.'', [])
      else
        (case groq_Client env api_key of
           Inl e \<Rightarrow> (Inl e, [])
         | Inr client \<Rightarrow>
             (let messages =
                    [\<lparr>role = ''system'', content = ''You are a helpful assistant.''\<rparr>,
                     \<lparr>role = ''user'', content = transcription\<rparr>]
              in case chat_completions_create env client ''llama-3.1-70b-versatile'' messages of
                   Inr completion \<Rightarrow>
                     (case choices completion of
                        c # cs \<Rightarrow>
                          (Inr (content (message c)),
                           [Chat_request client ''llama-3.1-70b-versatile'' messages])
                      | [] \<Rightarrow>
                          (Inr (''Error in response generation: '' @ ''list index out of range''),
                           [Chat_request client ''llama-3.1-70b-versatile'' messages]))
                 | Inl e \<Rightarrow>
                     (Inr (''Error in response generation: '' @ str e),
                      [Chat_request client ''llama-3.1-70b-versatile'' messages]))))"

text \<open>
  \<^verbatim>\<open>process_audio(audio, api_key)\<close>. \<^verbatim>\<open>not api_key\<close> holds of \<^verbatim>\<open>None\<close> and of the
  empty string. Neither call is guarded, so an exception leaving one of them leaves
  \<^verbatim>\<open>process_audio\<close> too.
\<close>

definition process_audio ::
  "env \<Rightarrow> audio option \<Rightarrow> string option \<Rightarrow> (string \<times> string) run" where
  "process_audio env audio api_key =
     (if api_key = None \<or> api_key = Some [] then
        (Inr (''Please enter your Groq API key.'', ''API key is required.''), [])
      else
        (case transcribe_audio env audio api_key of
           (Inl e, calls1) \<Rightarrow> (Inl e, calls1)
         | (Inr transcription, calls1) \<Rightarrow>
             (case generate_response env transcription api_key of
                (Inl e, calls2) \<Rightarrow> (Inl e, calls1 @ calls2)
              | (Inr response, calls2) \<Rightarrow>
                  (Inr (transcription, response), calls1 @ calls2))))"

section \<open>Sequential composition\<close>

text \<open>
  Running \<open>r\<close> and then \<open>f\<close> on what \<open>r\<close> returned: the requests of \<open>r\<close> come first, and
  an exception leaving \<open>r\<close> ends the composition before \<open>f\<close> starts.
\<close>

definition and_then :: "'a run \<Rightarrow> ('a \<Rightarrow> 'b run) \<Rightarrow> 'b run" where
  "and_then r f =
     (case fst r of
        Inl e \<Rightarrow> (Inl e, snd r)
      | Inr x \<Rightarrow> (fst (f x), snd r @ snd (f x)))"

definition return :: "'a \<Rightarrow> 'a run" where
  "return x = (Inr x, [])"

section \<open>The function without its second buffer\<close>

text \<open>
  \<^verbatim>\<open>transcribe_audio\<close> with the three lines that fill \<^verbatim>\<open>bytes_audio\<close> removed, and
  nothing else changed.
\<close>

definition transcribe_audio_without_np_save ::
  "env \<Rightarrow> audio option \<Rightarrow> string option \<Rightarrow> string run" where
  "transcribe_audio_without_np_save env audio api_key =
     (case audio of
        None \<Rightarrow> (Inr '''', [])
      | Some a \<Rightarrow>
          (case groq_Client env api_key of
             Inl e \<Rightarrow> (Inl e, [])
           | Inr client \<Rightarrow>
               (let audio_data = snd a in
                case sf_write env audio_data (fst a) of
                  Inl e \<Rightarrow> (Inl e, [])
                | Inr buffer \<Rightarrow>
                    (case transcriptions_create env client ''distil-whisper-large-v3-en''
                            (''audio.wav'', buffer) ''text'' of
                       Inr completion \<Rightarrow>
                         (Inr completion,
                          [Transcription_request client ''distil-whisper-large-v3-en''
                             (''audio.wav'', buffer) ''text''])
                     | Inl e \<Rightarrow>
                         (Inr (''Error in transcription: '' @ str e),
                          [Transcription_request client ''distil-whisper-large-v3-en''
                             (''audio.wav'', buffer) ''text''])))))"

section \<open>Concrete environments and inputs\<close>

text \<open>
  A client library that accepts every key that is given and raises without one.
\<close>

definition test_Client :: "string option \<Rightarrow> exception + client" where
  "test_Client api_key =
     (case api_key of
        None \<Rightarrow> Inl (Exception ''The api_key client option must be set'')
      | Some k \<Rightarrow> Inr (Client k))"

text \<open>
  An encoder that, as \<^verbatim>\<open>soundfile\<close> does, takes samples of four element types only
  and raises for the others; the encoded stream is a four-byte tag and the raw items.
\<close>

definition test_write :: "ndarray \<Rightarrow> int \<Rightarrow> exception + bytes" where
  "test_write a samplerate =
     (if dtype a = Int16 \<or> dtype a = Int32 \<or> dtype a = Float32 \<or> dtype a = Float64
      then Inr ([0x52, 0x49, 0x46, 0x46] @ items a)
      else Inl (Exception ''dtype must be one of float32, float64, int16, int32''))"

definition test_save :: "ndarray \<Rightarrow> bytes" where
  "test_save a = [0x93, 0x4E, 0x55, 0x4D, 0x50, 0x59] @ items a"

text \<open>Services that answer: the transcript is \<open>hello\<close> and the reply \<open>Hi there\<close>.\<close>

definition env_up :: env where
  "env_up =
     \<lparr>groq_Client = test_Client,
      sf_write = test_write,
      np_save = test_save,
      transcriptions_create = (\<lambda>c m f r. Inr ''hello''),
      chat_completions_create =
        (\<lambda>c m ms. Inr \<lparr>choices = [\<lparr>message = \<lparr>role = ''assistant'', content = ''Hi there''\<rparr>\<rparr>]\<rparr>)\<rparr>"

text \<open>Services that fail on every request.\<close>

definition env_down :: env where
  "env_down =
     \<lparr>groq_Client = test_Client,
      sf_write = test_write,
      np_save = test_save,
      transcriptions_create = (\<lambda>c m f r. Inl (Exception ''Connection error.'')),
      chat_completions_create = (\<lambda>c m ms. Inl (Exception ''Connection error.''))\<rparr>"

text \<open>
  A client library that raises whatever key it is given, over services that answer.
\<close>

definition env_refused :: env where
  "env_refused =
     \<lparr>groq_Client = (\<lambda>api_key. Inl (Exception ''client refused'')),
      sf_write = test_write,
      np_save = test_save,
      transcriptions_create = (\<lambda>c m f r. Inr ''hello''),
      chat_completions_create =
        (\<lambda>c m ms. Inr \<lparr>choices = [\<lparr>message = \<lparr>role = ''assistant'', content = ''Hi there''\<rparr>\<rparr>]\<rparr>)\<rparr>"

text \<open>
  Three clips at 44100 samples per second: two 16-bit samples, no sample at all, and
  two 8-bit samples.
\<close>

definition clip16 :: audio where
  "clip16 = (44100, \<lparr>dtype = Int16, shape = [2], items = [1, 0, 2, 0]\<rparr>)"

definition clip_empty :: audio where
  "clip_empty = (44100, \<lparr>dtype = Int16, shape = [0], items = []\<rparr>)"

definition clip8 :: audio where
  "clip8 = (44100, \<lparr>dtype = Int8, shape = [2], items = [1, 2]\<rparr>)"

section \<open>Properties\<close>

text \<open>
  C1. Without a key, whether \<^verbatim>\<open>None\<close> or the empty string, \<^verbatim>\<open>process_audio\<close> returns
  the fixed pair of messages for every audio input. It does so in every environment,
  also one whose every library call raises, and it issues no remote request: neither
  \<^verbatim>\<open>transcribe_audio\<close> nor \<^verbatim>\<open>generate_response\<close> takes part.
\<close>

theorem process_audio_without_key:
  "process_audio env audio None =
     (Inr (''Please enter your Groq API key.'', ''API key is required.''), []) \<and>
   process_audio env audio (Some '''') =
     (Inr (''Please enter your Groq API key.'', ''API key is required.''), [])"
  by (simp add: process_audio_def)

text \<open>
  Which requests each of the two clients can issue: \<^verbatim>\<open>transcribe_audio\<close> only
  transcription requests, \<^verbatim>\<open>generate_response\<close> only chat requests.
\<close>

lemma transcribe_audio_requests:
  "list_all is_transcription_request (snd (transcribe_audio env audio api_key))"
  by (simp add: transcribe_audio_def Let_def split: option.split sum.split)

lemma generate_response_requests:
  "list_all is_chat_request (snd (generate_response env transcription api_key))"
  by (simp add: generate_response_def Let_def split: sum.split list.split)

text \<open>
  C2. With a non-empty key, \<^verbatim>\<open>process_audio\<close> is the sequential composition of the
  two clients, for every audio input and every environment: \<^verbatim>\<open>transcribe_audio\<close>
  runs first, \<^verbatim>\<open>generate_response\<close> runs on exactly the transcription it returned,
  with the same key, and the pair of both results is returned. The requests of the
  first precede those of the second, the first issues transcription requests only and
  the second chat requests only, so the transcription call comes before the completion
  call.
\<close>

theorem process_audio_sequential:
  assumes "k \<noteq> []"
  shows "process_audio env audio (Some k) =
           and_then (transcribe_audio env audio (Some k))
             (\<lambda>transcription. and_then (generate_response env transcription (Some k))
                (\<lambda>response. return (transcription, response))) \<and>
         list_all is_transcription_request (snd (transcribe_audio env audio (Some k))) \<and>
         list_all is_chat_request (snd (generate_response env transcription (Some k)))"
proof -
  have "process_audio env audio (Some k) =
           and_then (transcribe_audio env audio (Some k))
             (\<lambda>transcription. and_then (generate_response env transcription (Some k))
                (\<lambda>response. return (transcription, response)))"
    using assms
    by (simp add: process_audio_def and_then_def return_def split: prod.split sum.split)
  then show ?thesis
    by (simp add: transcribe_audio_requests generate_response_requests)
qed

text \<open>
  The composition at work: a key, a 16-bit clip and services that answer.
\<close>

theorem process_audio_sequential_witness:
  "''gsk'' \<noteq> [] \<and>
   process_audio env_up (Some clip16) (Some ''gsk'') =
     (Inr (''hello'', ''Hi there''),
      [Transcription_request (Client ''gsk'') ''distil-whisper-large-v3-en''
         (''audio.wav'', [0x52, 0x49, 0x46, 0x46, 1, 0, 2, 0]) ''text'',
       Chat_request (Client ''gsk'') ''llama-3.1-70b-versatile''
         [\<lparr>role = ''system'', content = ''You are a helpful assistant.''\<rparr>,
          \<lparr>role = ''user'', content = ''hello''\<rparr>]])"
  using process_audio_sequential [of "''gsk''" env_up "Some clip16" "''hello''"]
  by (simp add: and_then_def return_def transcribe_audio_def generate_response_def
      env_up_def test_Client_def test_write_def test_save_def clip16_def)

text \<open>
  C3, as stated, fails. Without a key the client library raises, and the client is built
  before the \<^verbatim>\<open>try\<close>: for the non-empty transcript \<open>hello\<close> nothing is submitted
  to the endpoint and no text is returned.
\<close>

theorem generate_response_without_client:
  "generate_response env_up ''hello'' None =
     (Inl (Exception ''The api_key client option must be set''), [])"
  by (simp add: generate_response_def env_up_def test_Client_def)

text \<open>
  C3, amended. For every non-empty transcript:
  \<^item> when \<^verbatim>\<open>groq.Client\<close> builds a client for the key, \<^verbatim>\<open>generate_response\<close>
    issues exactly one chat request, whose messages are exactly two, in this order: the
    system message \<^verbatim>\<open>You are a helpful assistant.\<close> and a user message whose
    content is the transcript, unchanged; and when the endpoint answers with a
    completion that has a first choice, the text of that choice is returned unchanged;
  \<^item> when \<^verbatim>\<open>groq.Client\<close> raises, that exception leaves \<^verbatim>\<open>generate_response\<close> and
    no request is issued.
\<close>

theorem generate_response_request_or_raise:
  assumes "transcription \<noteq> []"
  shows "(groq_Client env api_key = Inr client \<longrightarrow>
            snd (generate_response env transcription api_key) =
              [Chat_request client ''llama-3.1-70b-versatile''
                 [\<lparr>role = ''system'', content = ''You are a helpful assistant.''\<rparr>,
                  \<lparr>role = ''user'', content = transcription\<rparr>]] \<and>
            (chat_completions_create env client ''llama-3.1-70b-versatile''
                 [\<lparr>role = ''system'', content = ''You are a helpful assistant.''\<rparr>,
                  \<lparr>role = ''user'', content = transcription\<rparr>] = Inr completion \<longrightarrow>
             choices completion = c # cs \<longrightarrow>
             fst (generate_response env transcription api_key) = Inr (content (message c)))) \<and>
         (groq_Client env' api_key' = Inl e \<longrightarrow>
            generate_response env' transcription api_key' = (Inl e, []))"
  using assms
  by (simp add: generate_response_def Let_def split: sum.split list.split)

text \<open>
  The transcript \<open>hello\<close> against services that answer, with a key and without one.
\<close>

theorem generate_response_request_or_raise_witness:
  "''hello'' \<noteq> [] \<and>
   groq_Client env_up (Some ''gsk'') = Inr (Client ''gsk'') \<and>
   chat_completions_create env_up (Client ''gsk'') ''llama-3.1-70b-versatile''
     [\<lparr>role = ''system'', content = ''You are a helpful assistant.''\<rparr>,
      \<lparr>role = ''user'', content = ''hello''\<rparr>] =
     Inr \<lparr>choices = [\<lparr>message = \<lparr>role = ''assistant'', content = ''Hi there''\<rparr>\<rparr>]\<rparr> \<and>
   generate_response env_up ''hello'' (Some ''gsk'') =
     (Inr ''Hi there'',
      [Chat_request (Client ''gsk'') ''llama-3.1-70b-versatile''
         [\<lparr>role = ''system'', content = ''You are a helpful assistant.''\<rparr>,
          \<lparr>role = ''user'', content = ''hello''\<rparr>]]) \<and>
   groq_Client env_up None = Inl (Exception ''The api_key client option must be set'') \<and>
   generate_response env_up ''hello'' None =
     (Inl (Exception ''The api_key client option must be set''), [])"
  using generate_response_request_or_raise [of "''hello''" env_up "Some ''gsk''" "Client ''gsk''"
      "\<lparr>choices = [\<lparr>message = \<lparr>role = ''assistant'', content = ''Hi there''\<rparr>\<rparr>]\<rparr>"
      "\<lparr>message = \<lparr>role = ''assistant'', content = ''Hi there''\<rparr>\<rparr>" "[]"
      env_up None "Exception ''The api_key client option must be set''"]
  by (simp add: env_up_def test_Client_def prod_eq_iff)

text \<open>
  C4. With absent audio (\<^verbatim>\<open>None\<close>), \<^verbatim>\<open>transcribe_audio\<close> returns the empty string
  and issues no remote request, for every key and in every environment: not even the
  client is built.
\<close>

theorem transcribe_audio_without_audio:
  "transcribe_audio env None api_key = (Inr '''', [])"
  by (simp add: transcribe_audio_def)

text \<open>
  C5. With an empty transcript, \<^verbatim>\<open>generate_response\<close> returns the fixed placeholder
  and issues no remote request, for every key. Consequently \<^verbatim>\<open>process_audio\<close> with
  a non-empty key and absent audio returns the empty transcript paired with that
  placeholder.
\<close>

theorem generate_response_without_transcript:
  "generate_response env '''' api_key =
     (Inr ''No transcription available. Please try speaking again.'', []) \<and>
   (k \<noteq> [] \<longrightarrow>
      process_audio env None (Some k) =
        (Inr ('''', ''No transcription available. Please try speaking again.''), []))"
  by (simp add: generate_response_def process_audio_def transcribe_audio_def)

text \<open>
  The key \<open>abc\<close> and no audio, against services that would fail if they were asked.
\<close>

theorem generate_response_without_transcript_witness:
  "''abc'' \<noteq> [] \<and>
   process_audio env_down None (Some ''abc'') =
     (Inr ('''', ''No transcription available. Please try speaking again.''), [])"
  using generate_response_without_transcript [of env_down "Some ''abc''" "''abc''"]
  by simp

text \<open>
  C6. When the remote call raises, the function returns the label of its stage followed
  by the text of the exception: \<^verbatim>\<open>Error in transcription: \<close> in
  \<^verbatim>\<open>transcribe_audio\<close>, \<^verbatim>\<open>Error in response generation: \<close> in
  \<^verbatim>\<open>generate_response\<close>. The premises say that the remote call is reached (audio
  present and encoded, respectively a non-empty transcript, and a client built) and
  that it raises.
\<close>

theorem remote_failure_is_labelled:
  "(groq_Client env api_key = Inr client \<longrightarrow>
    sf_write env (snd a) (fst a) = Inr buffer \<longrightarrow>
    transcriptions_create env client ''distil-whisper-large-v3-en''
      (''audio.wav'', buffer) ''text'' = Inl e \<longrightarrow>
    fst (transcribe_audio env (Some a) api_key) =
      Inr (''Error in transcription: '' @ str e)) \<and>
   (transcription \<noteq> [] \<longrightarrow>
    groq_Client env api_key = Inr client \<longrightarrow>
    chat_completions_create env client ''llama-3.1-70b-versatile''
      [\<lparr>role = ''system'', content = ''You are a helpful assistant.''\<rparr>,
       \<lparr>role = ''user'', content = transcription\<rparr>] = Inl e' \<longrightarrow>
    fst (generate_response env transcription api_key) =
      Inr (''Error in response generation: '' @ str e'))"
  by (simp add: transcribe_audio_def generate_response_def Let_def)

text \<open>
  Both stages against services that refuse the connection.
\<close>

theorem remote_failure_is_labelled_witness:
  "groq_Client env_down (Some ''gsk'') = Inr (Client ''gsk'') \<and>
   sf_write env_down (snd clip16) (fst clip16) = Inr [0x52, 0x49, 0x46, 0x46, 1, 0, 2, 0] \<and>
   transcriptions_create env_down (Client ''gsk'') ''distil-whisper-large-v3-en''
     (''audio.wav'', [0x52, 0x49, 0x46, 0x46, 1, 0, 2, 0]) ''text'' =
     Inl (Exception ''Connection error.'') \<and>
   fst (transcribe_audio env_down (Some clip16) (Some ''gsk'')) =
     Inr ''Error in transcription: Connection error.'' \<and>
   ''hello'' \<noteq> [] \<and>
   chat_completions_create env_down (Client ''gsk'') ''llama-3.1-70b-versatile''
     [\<lparr>role = ''system'', content = ''You are a helpful assistant.''\<rparr>,
      \<lparr>role = ''user'', content = ''hello''\<rparr>] = Inl (Exception ''Connection error.'') \<and>
   fst (generate_response env_down ''hello'' (Some ''gsk'')) =
     Inr ''Error in response generation: Connection error.''"
  using remote_failure_is_labelled [of env_down "Some ''gsk''" "Client ''gsk''" clip16
      "[0x52, 0x49, 0x46, 0x46, 1, 0, 2, 0]" "Exception ''Connection error.''"
      "''hello''" "Exception ''Connection error.''"]
  by (simp add: env_down_def test_Client_def test_write_def clip16_def)

text \<open>
  C7, as stated, fails, in both steps that precede the \<^verbatim>\<open>try\<close>. A clip of 8-bit
  samples is rejected by the encoder: the exception leaves \<^verbatim>\<open>transcribe_audio\<close> and,
  through it, \<^verbatim>\<open>process_audio\<close>. Without a key the client library raises: the
  exception leaves \<^verbatim>\<open>transcribe_audio\<close> and \<^verbatim>\<open>generate_response\<close>. Both remote
  services would answer.
\<close>

theorem exception_leaves_process_audio:
  "transcribe_audio env_up (Some clip8) (Some ''gsk'') =
     (Inl (Exception ''dtype must be one of float32, float64, int16, int32''), []) \<and>
   process_audio env_up (Some clip8) (Some ''gsk'') =
     (Inl (Exception ''dtype must be one of float32, float64, int16, int32''), []) \<and>
   \<not> returned (process_audio env_up (Some clip8) (Some ''gsk'')) \<and>
   transcribe_audio env_up (Some clip16) None =
     (Inl (Exception ''The api_key client option must be set''), []) \<and>
   \<not> returned (transcribe_audio env_up (Some clip16) None) \<and>
   \<not> returned (generate_response env_up ''hello'' None)"
  by (simp add: process_audio_def transcribe_audio_def generate_response_def returned_def
      env_up_def test_Client_def test_write_def clip8_def clip16_def)

text \<open>
  Once the client is built and the samples are encoded, nothing that follows can leave
  either client by an exception.
\<close>

lemma transcribe_audio_returns:
  "groq_Client env api_key = Inr client \<Longrightarrow> sf_write env (snd a) (fst a) = Inr buffer \<Longrightarrow>
   \<exists>t. fst (transcribe_audio env (Some a) api_key) = Inr t"
  by (simp add: transcribe_audio_def Let_def split: sum.split)

lemma generate_response_returns:
  "groq_Client env api_key = Inr client \<Longrightarrow>
   \<exists>r. fst (generate_response env transcription api_key) = Inr r"
  by (simp add: generate_response_def Let_def split: sum.split list.split)

lemma process_audio_returns:
  assumes "groq_Client env api_key = Inr client"
    and "sf_write env (snd a) (fst a) = Inr buffer"
  shows "returned (process_audio env (Some a) api_key)"
proof -
  obtain t where t: "fst (transcribe_audio env (Some a) api_key) = Inr t"
    using transcribe_audio_returns [OF assms] by blast
  obtain r where r: "fst (generate_response env t api_key) = Inr r"
    using generate_response_returns [OF assms(1)] by blast
  from t r show ?thesis
    by (cases "transcribe_audio env (Some a) api_key"; cases "generate_response env t api_key")
       (simp add: process_audio_def returned_def)
qed

text \<open>
  An exception of a step before the \<^verbatim>\<open>try\<close> is the outcome, with no request issued.
\<close>

lemma client_exception_leaves:
  assumes "groq_Client env api_key = Inl e"
  shows "transcribe_audio env (Some a) api_key = (Inl e, [])"
    and "transcription \<noteq> [] \<Longrightarrow> generate_response env transcription api_key = (Inl e, [])"
    and "api_key \<noteq> None \<Longrightarrow> api_key \<noteq> Some [] \<Longrightarrow>
         process_audio env (Some a) api_key = (Inl e, [])"
  using assms
  by (simp_all add: transcribe_audio_def generate_response_def process_audio_def)

lemma encoder_exception_leaves:
  assumes "groq_Client env api_key = Inr client"
    and "sf_write env (snd a) (fst a) = Inl e"
  shows "transcribe_audio env (Some a) api_key = (Inl e, [])"
    and "api_key \<noteq> None \<Longrightarrow> api_key \<noteq> Some [] \<Longrightarrow>
         process_audio env (Some a) api_key = (Inl e, [])"
  using assms
  by (simp_all add: transcribe_audio_def process_audio_def Let_def)

text \<open>
  C7, amended. The handlers cover the remote calls, and what is inside the \<^verbatim>\<open>try\<close>
  with them. Whatever the remote services do:
  \<^item> each function returns its string result(s) on every short-circuit: absent audio,
    empty transcript, absent or empty key, and \<^verbatim>\<open>process_audio\<close> with absent audio;
  \<^item> when \<^verbatim>\<open>groq.Client\<close> builds the client, \<^verbatim>\<open>generate_response\<close> returns its
    string, and when moreover \<^verbatim>\<open>sf.write\<close> encodes the samples,
    \<^verbatim>\<open>transcribe_audio\<close> and \<^verbatim>\<open>process_audio\<close> return their string result(s);
  \<^item> when \<^verbatim>\<open>groq.Client\<close> raises, that exception leaves \<^verbatim>\<open>transcribe_audio\<close> with
    audio present, \<^verbatim>\<open>generate_response\<close> with a non-empty transcript, and
    \<^verbatim>\<open>process_audio\<close> with audio present and a non-empty key, and no request is
    issued;
  \<^item> when the client is built and \<^verbatim>\<open>sf.write\<close> raises, that exception leaves
    \<^verbatim>\<open>transcribe_audio\<close> and \<^verbatim>\<open>process_audio\<close> with a non-empty key, and no
    request is issued.
\<close>

theorem remote_failures_become_strings:
  "returned (transcribe_audio env None api_key) \<and>
   returned (generate_response env '''' api_key) \<and>
   returned (process_audio env audio None) \<and>
   returned (process_audio env audio (Some '''')) \<and>
   returned (process_audio env None api_key) \<and>
   (groq_Client env api_key = Inr client \<longrightarrow>
      returned (generate_response env transcription api_key) \<and>
      (sf_write env (snd a) (fst a) = Inr buffer \<longrightarrow>
         returned (transcribe_audio env (Some a) api_key) \<and>
         returned (process_audio env (Some a) api_key))) \<and>
   (groq_Client env1 key1 = Inl e1 \<longrightarrow>
      transcribe_audio env1 (Some a1) key1 = (Inl e1, []) \<and>
      (transcription1 \<noteq> [] \<longrightarrow>
         generate_response env1 transcription1 key1 = (Inl e1, [])) \<and>
      (key1 \<noteq> None \<longrightarrow> key1 \<noteq> Some [] \<longrightarrow>
         process_audio env1 (Some a1) key1 = (Inl e1, []))) \<and>
   (groq_Client env2 key2 = Inr client2 \<longrightarrow>
    sf_write env2 (snd a2) (fst a2) = Inl e2 \<longrightarrow>
      transcribe_audio env2 (Some a2) key2 = (Inl e2, []) \<and>
      (key2 \<noteq> None \<longrightarrow> key2 \<noteq> Some [] \<longrightarrow>
         process_audio env2 (Some a2) key2 = (Inl e2, [])))"
proof -
  have short: "returned (transcribe_audio env None api_key) \<and>
      returned (generate_response env '''' api_key) \<and>
      returned (process_audio env audio None) \<and>
      returned (process_audio env audio (Some '''')) \<and>
      returned (process_audio env None api_key)"
    by (simp add: process_audio_def transcribe_audio_def generate_response_def returned_def)
  have converted: "returned (generate_response env transcription api_key) \<and>
      (sf_write env (snd a) (fst a) = Inr buffer \<longrightarrow>
         returned (transcribe_audio env (Some a) api_key) \<and>
         returned (process_audio env (Some a) api_key))"
    if built: "groq_Client env api_key = Inr client"
  proof -
    have "returned (generate_response env transcription api_key)"
      using generate_response_returns [OF built, of transcription] by (auto simp: returned_def)
    moreover have "returned (transcribe_audio env (Some a) api_key)"
      if "sf_write env (snd a) (fst a) = Inr buffer"
      using transcribe_audio_returns [OF built that] by (auto simp: returned_def)
    moreover have "returned (process_audio env (Some a) api_key)"
      if "sf_write env (snd a) (fst a) = Inr buffer"
      using process_audio_returns [OF built that] .
    ultimately show ?thesis by blast
  qed
  have refused: "transcribe_audio env1 (Some a1) key1 = (Inl e1, []) \<and>
      (transcription1 \<noteq> [] \<longrightarrow>
         generate_response env1 transcription1 key1 = (Inl e1, [])) \<and>
      (key1 \<noteq> None \<longrightarrow> key1 \<noteq> Some [] \<longrightarrow>
         process_audio env1 (Some a1) key1 = (Inl e1, []))"
    if "groq_Client env1 key1 = Inl e1"
    using client_exception_leaves [OF that] by blast
  have rejected: "transcribe_audio env2 (Some a2) key2 = (Inl e2, []) \<and>
      (key2 \<noteq> None \<longrightarrow> key2 \<noteq> Some [] \<longrightarrow>
         process_audio env2 (Some a2) key2 = (Inl e2, []))"
    if "groq_Client env2 key2 = Inr client2" "sf_write env2 (snd a2) (fst a2) = Inl e2"
    using encoder_exception_leaves [OF that] by blast
  from short converted refused rejected show ?thesis by blast
qed

text \<open>
  Both services refusing the connection: two labelled strings come back. A client
  library that refuses the key, and an encoder that rejects 8-bit samples: the
  exception is the outcome.
\<close>

theorem remote_failures_become_strings_witness:
  "groq_Client env_down (Some ''gsk'') = Inr (Client ''gsk'') \<and>
   sf_write env_down (snd clip16) (fst clip16) = Inr [0x52, 0x49, 0x46, 0x46, 1, 0, 2, 0] \<and>
   returned (generate_response env_down ''hello'' (Some ''gsk'')) \<and>
   returned (transcribe_audio env_down (Some clip16) (Some ''gsk'')) \<and>
   returned (process_audio env_down (Some clip16) (Some ''gsk'')) \<and>
   process_audio env_down (Some clip16) (Some ''gsk'') =
     (Inr (''Error in transcription: Connection error.'',
           ''Error in response generation: Connection error.''),
      [Transcription_request (Client ''gsk'') ''distil-whisper-large-v3-en''
         (''audio.wav'', [0x52, 0x49, 0x46, 0x46, 1, 0, 2, 0]) ''text'',
       Chat_request (Client ''gsk'') ''llama-3.1-70b-versatile''
         [\<lparr>role = ''system'', content = ''You are a helpful assistant.''\<rparr>,
          \<lparr>role = ''user'', content = ''Error in transcription: Connection error.''\<rparr>]]) \<and>
   groq_Client env_refused (Some ''gsk'') = Inl (Exception ''client refused'') \<and>
   ''hello'' \<noteq> [] \<and> Some ''gsk'' \<noteq> None \<and> Some ''gsk'' \<noteq> Some [] \<and>
   transcribe_audio env_refused (Some clip16) (Some ''gsk'') =
     (Inl (Exception ''client refused''), []) \<and>
   generate_response env_refused ''hello'' (Some ''gsk'') =
     (Inl (Exception ''client refused''), []) \<and>
   process_audio env_refused (Some clip16) (Some ''gsk'') =
     (Inl (Exception ''client refused''), []) \<and>
   groq_Client env_up (Some ''gsk'') = Inr (Client ''gsk'') \<and>
   sf_write env_up (snd clip8) (fst clip8) =
     Inl (Exception ''dtype must be one of float32, float64, int16, int32'') \<and>
   transcribe_audio env_up (Some clip8) (Some ''gsk'') =
     (Inl (Exception ''dtype must be one of float32, float64, int16, int32''), []) \<and>
   process_audio env_up (Some clip8) (Some ''gsk'') =
     (Inl (Exception ''dtype must be one of float32, float64, int16, int32''), [])"
  using remote_failures_become_strings [of env_down "Some ''gsk''" "Some clip16" "Client ''gsk''"
      "''hello''" clip16 "[0x52, 0x49, 0x46, 0x46, 1, 0, 2, 0]"
      env_refused "Some ''gsk''" "Exception ''client refused''" clip16 "''hello''"
      env_up "Some ''gsk''" "Client ''gsk''" clip8
      "Exception ''dtype must be one of float32, float64, int16, int32''"]
  by (simp add: process_audio_def transcribe_audio_def generate_response_def
      env_down_def env_up_def env_refused_def test_Client_def test_write_def test_save_def
      clip16_def clip8_def)

text \<open>
  C8. When the transcription call raises, within \<^verbatim>\<open>process_audio\<close> run with a
  non-empty key, the labelled error text is the transcript: \<^verbatim>\<open>generate_response\<close>
  runs on it, the chat request is issued with that text as the content of the user
  message, and the text is returned as the first component next to the reply.
\<close>

theorem transcription_error_is_sent_on:
  assumes "k \<noteq> []"
    and "groq_Client env (Some k) = Inr client"
    and "sf_write env (snd a) (fst a) = Inr buffer"
    and "transcriptions_create env client ''distil-whisper-large-v3-en''
           (''audio.wav'', buffer) ''text'' = Inl e"
  shows "\<exists>response.
           fst (generate_response env (''Error in transcription: '' @ str e) (Some k)) =
             Inr response \<and>
           process_audio env (Some a) (Some k) =
             (Inr (''Error in transcription: '' @ str e, response),
              [Transcription_request client ''distil-whisper-large-v3-en''
                 (''audio.wav'', buffer) ''text'',
               Chat_request client ''llama-3.1-70b-versatile''
                 [\<lparr>role = ''system'', content = ''You are a helpful assistant.''\<rparr>,
                  \<lparr>role = ''user'', content = ''Error in transcription: '' @ str e\<rparr>]])"
  using assms
  by (simp add: process_audio_def transcribe_audio_def generate_response_def Let_def
      split: sum.split list.split)

text \<open>
  The transcription service refusing the connection.
\<close>

theorem transcription_error_is_sent_on_witness:
  "''gsk'' \<noteq> [] \<and>
   groq_Client env_down (Some ''gsk'') = Inr (Client ''gsk'') \<and>
   sf_write env_down (snd clip16) (fst clip16) = Inr [0x52, 0x49, 0x46, 0x46, 1, 0, 2, 0] \<and>
   transcriptions_create env_down (Client ''gsk'') ''distil-whisper-large-v3-en''
     (''audio.wav'', [0x52, 0x49, 0x46, 0x46, 1, 0, 2, 0]) ''text'' =
     Inl (Exception ''Connection error.'') \<and>
   (\<exists>response.
      fst (generate_response env_down
             (''Error in transcription: '' @ str (Exception ''Connection error.''))
             (Some ''gsk'')) = Inr response \<and>
      process_audio env_down (Some clip16) (Some ''gsk'') =
        (Inr (''Error in transcription: '' @ str (Exception ''Connection error.''), response),
         [Transcription_request (Client ''gsk'') ''distil-whisper-large-v3-en''
            (''audio.wav'', [0x52, 0x49, 0x46, 0x46, 1, 0, 2, 0]) ''text'',
          Chat_request (Client ''gsk'') ''llama-3.1-70b-versatile''
            [\<lparr>role = ''system'', content = ''You are a helpful assistant.''\<rparr>,
             \<lparr>role = ''user'',
              content = ''Error in transcription: '' @ str (Exception ''Connection error.'')\<rparr>]]))"
  using transcription_error_is_sent_on [of "''gsk''" env_down "Client ''gsk''" clip16
      "[0x52, 0x49, 0x46, 0x46, 1, 0, 2, 0]" "Exception ''Connection error.''"]
  by (simp add: env_down_def test_Client_def test_write_def clip16_def)

text \<open>
  C9. The second buffer is dead code. \<^verbatim>\<open>transcribe_audio\<close> without the lines that
  fill it has the same outcome, result and requests, on every input and in every
  environment; and the outcome of \<^verbatim>\<open>transcribe_audio\<close> does not depend on what
  \<^verbatim>\<open>np.save\<close> writes, so the file of the request is the WAV buffer alone.
\<close>

theorem np_save_is_dead_code:
  "transcribe_audio_without_np_save env audio api_key = transcribe_audio env audio api_key \<and>
   transcribe_audio (env\<lparr>np_save := f\<rparr>) audio api_key = transcribe_audio env audio api_key"
  by (simp add: transcribe_audio_without_np_save_def transcribe_audio_def Let_def
      split: option.split sum.split)

text \<open>
  C10, as stated, fails, in both steps that precede the remote call. The clip of 8-bit
  samples is not \<^verbatim>\<open>None\<close>, but the encoder rejects it; the clip with the empty buffer
  is not \<^verbatim>\<open>None\<close>, but without a key the client library raises before anything is
  encoded. In neither run is the remote transcription call attempted.
\<close>

theorem present_audio_not_sent:
  "transcribe_audio env_up (Some clip8) (Some ''gsk'') =
     (Inl (Exception ''dtype must be one of float32, float64, int16, int32''), []) \<and>
   transcribe_audio env_up (Some clip_empty) None =
     (Inl (Exception ''The api_key client option must be set''), [])"
  by (simp add: transcribe_audio_def env_up_def test_Client_def test_write_def clip8_def
      clip_empty_def)

text \<open>
  C10, amended. The precondition tests only for \<^verbatim>\<open>None\<close>: for every audio that is not
  \<^verbatim>\<open>None\<close>, whatever its samples, an empty buffer included, the short-circuit is not
  taken, so the outcome is never that of absent audio. Instead
  \<^item> when \<^verbatim>\<open>groq.Client\<close> builds the client and the WAV encoder, given the samples
    and the clip's sample rate (the first component of the pair), returns, exactly one
    transcription request is issued, with the encoded buffer as its file;
  \<^item> when the client is built and the encoder raises, its exception leaves
    \<^verbatim>\<open>transcribe_audio\<close> and no request is issued;
  \<^item> when \<^verbatim>\<open>groq.Client\<close> raises, its exception leaves \<^verbatim>\<open>transcribe_audio\<close> and no
    request is issued.
\<close>

theorem present_audio_is_encoded_and_sent:
  "transcribe_audio env (Some (samplerate, samples)) api_key \<noteq> transcribe_audio env None api_key \<and>
   (groq_Client env api_key = Inr client \<longrightarrow>
    sf_write env samples samplerate = Inr buffer \<longrightarrow>
      snd (transcribe_audio env (Some (samplerate, samples)) api_key) =
        [Transcription_request client ''distil-whisper-large-v3-en''
           (''audio.wav'', buffer) ''text'']) \<and>
   (groq_Client env1 key1 = Inr client1 \<longrightarrow>
    sf_write env1 samples1 samplerate1 = Inl e1 \<longrightarrow>
      transcribe_audio env1 (Some (samplerate1, samples1)) key1 = (Inl e1, [])) \<and>
   (groq_Client env2 key2 = Inl e2 \<longrightarrow>
      transcribe_audio env2 (Some (samplerate2, samples2)) key2 = (Inl e2, []))"
  by (simp add: transcribe_audio_def Let_def split: sum.split)

text \<open>
  A clip with an empty buffer of 16-bit samples is encoded and sent; the 8-bit clip is
  rejected by the encoder; without a key no client is built.
\<close>

theorem present_audio_is_encoded_and_sent_witness:
  "groq_Client env_up (Some ''gsk'') = Inr (Client ''gsk'') \<and>
   sf_write env_up \<lparr>dtype = Int16, shape = [0], items = []\<rparr> 44100 =
     Inr [0x52, 0x49, 0x46, 0x46] \<and>
   transcribe_audio env_up (Some clip_empty) (Some ''gsk'') =
     (Inr ''hello'',
      [Transcription_request (Client ''gsk'') ''distil-whisper-large-v3-en''
         (''audio.wav'', [0x52, 0x49, 0x46, 0x46]) ''text'']) \<and>
   sf_write env_up \<lparr>dtype = Int8, shape = [2], items = [1, 2]\<rparr> 44100 =
     Inl (Exception ''dtype must be one of float32, float64, int16, int32'') \<and>
   transcribe_audio env_up (Some clip8) (Some ''gsk'') =
     (Inl (Exception ''dtype must be one of float32, float64, int16, int32''), []) \<and>
   groq_Client env_up None = Inl (Exception ''The api_key client option must be set'') \<and>
   transcribe_audio env_up (Some clip_empty) None =
     (Inl (Exception ''The api_key client option must be set''), [])"
  using present_audio_is_encoded_and_sent [of env_up 44100
      "\<lparr>dtype = Int16, shape = [0], items = []\<rparr>" "Some ''gsk''" "Client ''gsk''"
      "[0x52, 0x49, 0x46, 0x46]"
      env_up "Some ''gsk''" "Client ''gsk''" "\<lparr>dtype = Int8, shape = [2], items = [1, 2]\<rparr>" 44100
      "Exception ''dtype must be one of float32, float64, int16, int32''"
      env_up None "Exception ''The api_key client option must be set''" 44100
      "\<lparr>dtype = Int16, shape = [0], items = []\<rparr>"]
  by (simp add: transcribe_audio_def env_up_def test_Client_def test_write_def test_save_def
      clip_empty_def clip8_def)

end
